theory Spec2Isabelle
  imports Complex_Main "HOL-Library.Multiset"
begin

section \<open>Category classifier (\<open>categorize_expense\<close>, database.py)\<close>

text \<open>
  Strings are byte lists. \<open>str.lower\<close> is modelled on the ASCII letters, which is
  all the keyword table contains; \<open>keyword in description\<close> is the substring test.
\<close>

definition lower_char :: "char \<Rightarrow> char" where
  "lower_char c =
     (case map_of (zip ''ABCDEFGHIJKLMNOPQRSTUVWXYZ'' ''abcdefghijklmnopqrstuvwxyz'') c of
        None \<Rightarrow> c
      | Some l \<Rightarrow> l)"

definition lower :: "string \<Rightarrow> string" where
  "lower s = map lower_char s"

fun startswith :: "string \<Rightarrow> string \<Rightarrow> bool" where
  "startswith [] s = True"
| "startswith (k # ks) [] = False"
| "startswith (k # ks) (c # cs) = (k = c \<and> startswith ks cs)"

text \<open>\<open>str_in k s\<close> is Python's \<open>k in s\<close> on strings.\<close>

fun str_in :: "string \<Rightarrow> string \<Rightarrow> bool" where
  "str_in k [] = (k = [])"
| "str_in k (c # cs) = (startswith k (c # cs) \<or> str_in k cs)"

text \<open>The keyword dictionary, in its insertion order (the order the loop visits it).\<close>

definition categories :: "(string \<times> string list) list" where
  "categories =
    [(''food'', [''groceries'', ''restaurant'', ''snack'', ''food'', ''lunch'', ''dinner'',
        ''breakfast'', ''cafe'', ''coffee'', ''meal'', ''takeout'', ''delivery'', ''dine'']),
     (''housing'', [''rent'', ''mortgage'', ''utilities'', ''electricity'', ''water'',
        ''gas bill'', ''internet'', ''repair'', ''maintenance'', ''property'', ''furniture'',
        ''home'', ''apartment'']),
     (''transport'', [''gas'', ''uber'', ''bus'', ''car'', ''taxi'', ''train'', ''subway'',
        ''lyft'', ''fuel'', ''transit'', ''transportation'', ''commute'', ''vehicle'',
        ''maintenance'', ''parking'']),
     (''entertainment'', [''movie'', ''game'', ''concert'', ''theater'', ''netflix'',
        ''subscription'', ''streaming'', ''hobby'', ''leisure'', ''event'', ''ticket'',
        ''show'', ''music'', ''sports'']),
     (''shopping'', [''clothes'', ''electronics'', ''shoes'', ''amazon'', ''online'', ''mall'',
        ''retail'', ''purchase'', ''clothing'', ''accessory'', ''device'', ''gadget'',
        ''appliance'']),
     (''health'', [''doctor'', ''medical'', ''medicine'', ''pharmacy'', ''healthcare'',
        ''dental'', ''vision'', ''fitness'', ''gym'', ''wellness'', ''hospital'',
        ''prescription''])]"

text \<open>\<open>sum(1 for keyword in keywords if keyword in description)\<close>\<close>

definition count_matches :: "string list \<Rightarrow> string \<Rightarrow> nat" where
  "count_matches keywords description = length (filter (\<lambda>keyword. str_in keyword description) keywords)"

text \<open>
  The \<open>for category, keywords in categories.items()\<close> loop; the accumulator is
  \<open>(max_matches, best_category)\<close>, replaced only on a strictly larger count.
\<close>

fun best_loop :: "(string \<times> string list) list \<Rightarrow> string \<Rightarrow> nat \<times> string \<Rightarrow> nat \<times> string" where
  "best_loop [] description acc = acc"
| "best_loop ((category, keywords) # rest) description (max_matches, best_category) =
     (let matches = count_matches keywords description
      in if matches > max_matches
         then best_loop rest description (matches, category)
         else best_loop rest description (max_matches, best_category))"

definition categorize_expense :: "string \<Rightarrow> string" where
  "categorize_expense description =
     (if description = [] then ''other''
      else snd (best_loop categories (lower description) (0, ''other'')))"

text \<open>The score of the \<open>i\<close>-th category of the table on a description.\<close>

definition score :: "nat \<Rightarrow> string \<Rightarrow> nat" where
  "score i description = count_matches (snd (categories ! i)) (lower description)"

section \<open>The store (schema of \<open>init_db\<close>, database.py)\<close>

text \<open>
  The REAL columns (amount, limit_amount, spent_amount) are modelled as exact rationals:
  sums, differences and quotients are the mathematical ones, and the binary rounding of
  IEEE doubles is outside this model. A date is the number of seconds it denotes; the
  stored text \<open>YYYY-MM-DD HH:MM:SS\<close>, zero-padded as \<open>strftime\<close> writes it, is
  ordered by SQLite as that number is. The tables
  are lists of rows in insertion (rowid) order. Columns no operation below reads
  (\<open>created_at\<close>, the ids of budgets and notifications) and the savings_goals table are
  left out.
\<close>

datatype error = ValueError | SqliteError | ZeroDivisionError

record expense =
  e_id :: nat
  e_amount :: rat
  e_description :: string
  e_category :: string
  e_date :: nat

record budget =
  b_category :: string
  b_limit_amount :: rat
  b_spent_amount :: rat
  b_period :: string

datatype nstatus = Read | Unread

datatype ntype = Info | Warning | Alert

text \<open>
  The message \<open>"Alert: You've exceeded your {category} budget of ${limit_amount}
  (currently at {percentage}%)!"\<close>, kept as the three values it interpolates.
\<close>

datatype message = Exceeded string rat int

record notification =
  n_message :: message
  n_status :: nstatus
  n_type :: ntype

text \<open>
  \<open>expenses_seq\<close> is the sqlite_sequence entry of the AUTOINCREMENT key of expenses:
  the largest id ever handed out.
\<close>

record db =
  expenses :: "expense list"
  budgets :: "budget list"
  notifications :: "notification list"
  expenses_seq :: nat

definition empty_db :: db where
  "empty_db = \<lparr>expenses = [], budgets = [], notifications = [], expenses_seq = 0\<rparr>"

subsection \<open>Python helpers\<close>

text \<open>\<open>round(x)\<close>: to the nearest integer, a half to the even neighbour.\<close>

definition py_round :: "rat \<Rightarrow> int" where
  "py_round x =
     (let f = \<lfloor>x\<rfloor>; d = x - of_int f
      in if d < 1 / 2 then f
         else if 1 / 2 < d then f + 1
         else if even f then f else f + 1)"

text \<open>\<open>round(x, ndigits)\<close>\<close>

definition py_round_nd :: "rat \<Rightarrow> nat \<Rightarrow> rat" where
  "py_round_nd x ndigits = of_int (py_round (x * 10 ^ ndigits)) / 10 ^ ndigits"

text \<open>The ASCII characters \<open>str.strip\<close> removes.\<close>

definition is_space :: "char \<Rightarrow> bool" where
  "is_space c = (c \<in> set [CHR 0x09, CHR 0x0A, CHR 0x0B, CHR 0x0C, CHR 0x0D,
                           CHR 0x1C, CHR 0x1D, CHR 0x1E, CHR 0x1F, CHR 0x20])"

definition strip :: "string \<Rightarrow> string" where
  "strip s = rev (dropWhile is_space (rev (dropWhile is_space s)))"

subsection \<open>SQL statements\<close>

text \<open>
  The rowid an AUTOINCREMENT insert receives: one more than the largest id in the table
  and in sqlite_sequence.
\<close>

definition next_expense_id :: "db \<Rightarrow> nat" where
  "next_expense_id s = Suc (fold max (map e_id (expenses s)) (expenses_seq s))"

text \<open>\<open>INSERT INTO expenses (amount, description, category, date) VALUES (?, ?, ?, ?)\<close>\<close>

definition insert_expense :: "rat \<Rightarrow> string \<Rightarrow> string \<Rightarrow> nat \<Rightarrow> db \<Rightarrow> db" where
  "insert_expense amount description category date s =
     s\<lparr>expenses := expenses s @
          [\<lparr>e_id = next_expense_id s, e_amount = amount, e_description = description,
            e_category = category, e_date = date\<rparr>],
       expenses_seq := next_expense_id s\<rparr>"

text \<open>
  \<open>INSERT INTO budgets (category, limit_amount, spent_amount) VALUES (?, 300, ?)
  ON CONFLICT(category) DO UPDATE SET spent_amount = spent_amount + ?\<close>
\<close>

fun upsert_spent :: "string \<Rightarrow> rat \<Rightarrow> budget list \<Rightarrow> budget list" where
  "upsert_spent category amount [] =
     [\<lparr>b_category = category, b_limit_amount = 300, b_spent_amount = amount,
       b_period = ''monthly''\<rparr>]"
| "upsert_spent category amount (b # bs) =
     (if b_category b = category
      then b\<lparr>b_spent_amount := b_spent_amount b + amount\<rparr> # bs
      else b # upsert_spent category amount bs)"

text \<open>
  \<open>INSERT INTO budgets (category, limit_amount) VALUES (?, ?)
  ON CONFLICT(category) DO UPDATE SET limit_amount = ?\<close>; spent_amount defaults to 0.
\<close>

fun upsert_limit :: "string \<Rightarrow> rat \<Rightarrow> budget list \<Rightarrow> budget list" where
  "upsert_limit category limit_amount [] =
     [\<lparr>b_category = category, b_limit_amount = limit_amount, b_spent_amount = 0,
       b_period = ''monthly''\<rparr>]"
| "upsert_limit category limit_amount (b # bs) =
     (if b_category b = category
      then b\<lparr>b_limit_amount := limit_amount\<rparr> # bs
      else b # upsert_limit category limit_amount bs)"

text \<open>\<open>INSERT OR IGNORE INTO budgets (category, limit_amount) VALUES (?, ?)\<close>\<close>

fun insert_or_ignore :: "string \<times> rat \<Rightarrow> budget list \<Rightarrow> budget list" where
  "insert_or_ignore (category, amount) [] =
     [\<lparr>b_category = category, b_limit_amount = amount, b_spent_amount = 0,
       b_period = ''monthly''\<rparr>]"
| "insert_or_ignore (category, amount) (b # bs) =
     (if b_category b = category then b # bs
      else b # insert_or_ignore (category, amount) bs)"

text \<open>\<open>SELECT limit_amount, spent_amount FROM budgets WHERE category = ?\<close>, \<open>fetchone()\<close>\<close>

definition select_budget :: "string \<Rightarrow> db \<Rightarrow> budget option" where
  "select_budget category s = find (\<lambda>b. b_category b = category) (budgets s)"

text \<open>\<open>SELECT amount, category FROM expenses WHERE id = ?\<close>, \<open>fetchone()\<close>\<close>

definition select_expense :: "nat \<Rightarrow> db \<Rightarrow> expense option" where
  "select_expense expense_id s = find (\<lambda>e. e_id e = expense_id) (expenses s)"

text \<open>\<open>DELETE FROM expenses WHERE id = ?\<close>\<close>

definition delete_row :: "nat \<Rightarrow> db \<Rightarrow> db" where
  "delete_row expense_id s = s\<lparr>expenses := filter (\<lambda>e. e_id e \<noteq> expense_id) (expenses s)\<rparr>"

text \<open>\<open>UPDATE budgets SET spent_amount = MAX(0, spent_amount - ?) WHERE category = ?\<close>\<close>

definition decrement_spent :: "rat \<Rightarrow> string \<Rightarrow> db \<Rightarrow> db" where
  "decrement_spent amount category s =
     s\<lparr>budgets := map (\<lambda>b. if b_category b = category
                             then b\<lparr>b_spent_amount := max 0 (b_spent_amount b - amount)\<rparr>
                             else b) (budgets s)\<rparr>"

text \<open>\<open>INSERT INTO notifications (message, status, type) VALUES (?, 'unread', ?)\<close>\<close>

definition insert_notification :: "message \<Rightarrow> ntype \<Rightarrow> db \<Rightarrow> db" where
  "insert_notification msg notification_type s =
     s\<lparr>notifications := notifications s @
          [\<lparr>n_message = msg, n_status = Unread, n_type = notification_type\<rparr>]\<rparr>"

subsection \<open>Connections and transactions (\<open>db_connection\<close>)\<close>

text \<open>
  A connection holds the database as committed and as the open transaction sees it.
  \<open>commit\<close> makes the transaction's view the committed one, \<open>rollback\<close> drops it,
  and \<open>close\<close> leaves the committed database behind (uncommitted work is lost).
\<close>

record connection =
  committed :: db
  working :: db

definition connect :: "db \<Rightarrow> connection" where
  "connect s = \<lparr>committed = s, working = s\<rparr>"

definition commit :: "connection \<Rightarrow> connection" where
  "commit conn = conn\<lparr>committed := working conn\<rparr>"

definition rollback :: "connection \<Rightarrow> connection" where
  "rollback conn = conn\<lparr>working := committed conn\<rparr>"

definition close :: "connection \<Rightarrow> db" where
  "close conn = committed conn"

text \<open>A statement changes the transaction's view only.\<close>

definition execute :: "(db \<Rightarrow> db) \<Rightarrow> connection \<Rightarrow> connection" where
  "execute stmt conn = conn\<lparr>working := stmt (working conn)\<rparr>"

text \<open>
  The statements of the operations. A run is given the statement (if any) at which the
  store raises \<open>sqlite3.Error\<close>; that statement then has no effect.
\<close>

datatype stmt = Begin | InsertExpense | UpsertBudget | SelectBudget | InsertNotification
  | SelectExpense | DeleteExpense | UpdateBudget | Commit

text \<open>
  The context manager: the body runs on a fresh connection and hands back the
  connection as it left it, with its result or the exception it raised. On
  \<open>sqlite3.Error\<close> the handler rolls back; in every case the connection is closed.
\<close>

definition db_connection :: "db \<Rightarrow> (connection \<Rightarrow> connection \<times> (error + 'a)) \<Rightarrow> db \<times> (error + 'a)" where
  "db_connection s body =
     (case body (connect s) of
        (conn, Inl SqliteError) \<Rightarrow> (close (rollback conn), Inl SqliteError)
      | (conn, r) \<Rightarrow> (close conn, r))"

text \<open>The tail \<open>conn.commit(); return result\<close> of a body.\<close>

definition commit_and_return :: "stmt option \<Rightarrow> 'a \<Rightarrow> connection \<Rightarrow> connection \<times> (error + 'a)" where
  "commit_and_return fault result conn =
     (if fault = Some Commit then (conn, Inl SqliteError) else (commit conn, Inr result))"

section \<open>Operations (database.py)\<close>

subsection \<open>\<open>init_db\<close>\<close>

definition default_budgets :: "(string \<times> rat) list" where
  "default_budgets =
     [(''food'', 500), (''housing'', 1500), (''transport'', 300), (''entertainment'', 200),
      (''shopping'', 300), (''health'', 300), (''other'', 200)]"

text \<open>
  \<open>CREATE TABLE IF NOT EXISTS\<close> keeps what exists; the default budgets are added
  where their category has no row yet. (A store failure makes \<open>init_db\<close> return
  False and leave the store as it was; that path is not modelled.)
\<close>

definition init_db :: "db \<Rightarrow> db" where
  "init_db s = s\<lparr>budgets := fold insert_or_ignore default_budgets (budgets s)\<rparr>"

subsection \<open>\<open>add_expense\<close>\<close>

text \<open>
  The \<open>date\<close> argument: absent, a full timestamp, a date only (a day number, expanded to
  its midnight), or a string neither format parses. \<open>now\<close> is \<open>datetime.now()\<close>.
\<close>

datatype date_arg = NoDate | FullDate nat | DayOnly nat | Unparseable

definition normalize_date :: "nat \<Rightarrow> date_arg \<Rightarrow> nat" where
  "normalize_date now date =
     (case date of
        NoDate \<Rightarrow> now
      | FullDate t \<Rightarrow> t
      | DayOnly day \<Rightarrow> day * 86400
      | Unparseable \<Rightarrow> now)"

definition add_expense_body ::
  "stmt option \<Rightarrow> rat \<Rightarrow> string \<Rightarrow> string \<Rightarrow> nat \<Rightarrow> connection \<Rightarrow> connection \<times> (error + nat)" where
  "add_expense_body fault amount description category date conn =
     (if fault = Some Begin then (conn, Inl SqliteError)
      else if fault = Some InsertExpense then (conn, Inl SqliteError)
      else
        let expense_id = next_expense_id (working conn);
            conn1 = execute (insert_expense amount description category date) conn
        in if fault = Some UpsertBudget then (conn1, Inl SqliteError)
        else
          let conn2 = execute (\<lambda>s. s\<lparr>budgets := upsert_spent category amount (budgets s)\<rparr>) conn1
          in if fault = Some SelectBudget then (conn2, Inl SqliteError)
          else
            (case select_budget category (working conn2) of
               None \<Rightarrow> commit_and_return fault expense_id conn2
             | Some budget \<Rightarrow>
                 if b_spent_amount budget > b_limit_amount budget then
                   if b_limit_amount budget = 0 then (conn2, Inl ZeroDivisionError)
                   else
                     let percentage =
                           py_round (b_spent_amount budget / b_limit_amount budget * 100);
                         notification_type = (if percentage > 120 then Alert else Warning)
                     in if fault = Some InsertNotification then (conn2, Inl SqliteError)
                        else commit_and_return fault expense_id
                               (execute (insert_notification
                                           (Exceeded category (b_limit_amount budget) percentage)
                                           notification_type) conn2)
                 else commit_and_return fault expense_id conn2))"

text \<open>
  \<open>category\<close> is \<open>None\<close> when the caller gives none. The result pairs the database the
  call leaves behind with the new expense id or the exception raised.
\<close>

definition effective_category :: "string \<Rightarrow> string option \<Rightarrow> string" where
  "effective_category description category =
     (case category of
        None \<Rightarrow> categorize_expense description
      | Some c \<Rightarrow> if strip c = [] then categorize_expense description else c)"

definition add_expense ::
  "stmt option \<Rightarrow> nat \<Rightarrow> db \<Rightarrow> rat \<Rightarrow> string \<Rightarrow> string option \<Rightarrow> date_arg \<Rightarrow> db \<times> (error + nat)" where
  "add_expense fault now s amount description category date =
     (if amount = 0 \<or> amount \<le> 0 then (s, Inl ValueError)
      else if description = [] then (s, Inl ValueError)
      else db_connection s
             (add_expense_body fault amount description
                (effective_category description category) (normalize_date now date)))"

subsection \<open>\<open>delete_expense\<close>\<close>

definition delete_expense_body :: "stmt option \<Rightarrow> nat \<Rightarrow> connection \<Rightarrow> connection \<times> (error + bool)" where
  "delete_expense_body fault expense_id conn =
     (if fault = Some Begin then (conn, Inl SqliteError)
      else if fault = Some SelectExpense then (conn, Inl SqliteError)
      else
        (case select_expense expense_id (working conn) of
           None \<Rightarrow> (rollback conn, Inl ValueError)
         | Some expense \<Rightarrow>
             let amount = e_amount expense; category = e_category expense
             in if fault = Some DeleteExpense then (conn, Inl SqliteError)
             else
               let conn1 = execute (delete_row expense_id) conn
               in if fault = Some UpdateBudget then (conn1, Inl SqliteError)
               else commit_and_return fault True
                      (execute (decrement_spent amount category) conn1)))"

definition delete_expense :: "stmt option \<Rightarrow> db \<Rightarrow> nat \<Rightarrow> db \<times> (error + bool)" where
  "delete_expense fault s expense_id = db_connection s (delete_expense_body fault expense_id)"

subsection \<open>\<open>set_budget\<close>\<close>

definition set_budget :: "stmt option \<Rightarrow> db \<Rightarrow> string \<Rightarrow> rat \<Rightarrow> db \<times> (error + bool)" where
  "set_budget fault s category limit_amount =
     (if category = [] \<or> strip category = [] then (s, Inl ValueError)
      else if limit_amount = 0 \<or> limit_amount < 0 then (s, Inl ValueError)
      else db_connection s
             (\<lambda>conn. if fault = Some UpsertBudget then (conn, Inl SqliteError)
                     else commit_and_return fault True
                            (execute (\<lambda>s. s\<lparr>budgets := upsert_limit category limit_amount (budgets s)\<rparr>)
                               conn)))"

subsection \<open>\<open>get_budget_overview\<close>\<close>

record overview_row =
  o_category :: string
  o_limit :: rat
  o_spent :: rat
  o_remaining :: rat
  o_percentage :: rat
  o_status :: string

record overview_summary =
  total_limit :: rat
  total_spent :: rat
  total_remaining :: rat
  overall_percentage :: rat

text \<open>\<open>CASE WHEN limit_amount > 0 THEN (spent_amount / limit_amount) * 100 ELSE 0 END\<close>\<close>

definition sql_percentage :: "budget \<Rightarrow> rat" where
  "sql_percentage b =
     (if b_limit_amount b > 0 then (b_spent_amount b / b_limit_amount b) * 100 else 0)"

text \<open>
  \<open>SELECT ... FROM budgets ORDER BY percentage DESC\<close>. SQL leaves the order of rows of
  equal percentage open; the model keeps them in table order.
\<close>

definition overview_query :: "db \<Rightarrow> budget list" where
  "overview_query s = sort_key (\<lambda>b. - sql_percentage b) (budgets s)"

definition budget_status :: "rat \<Rightarrow> string" where
  "budget_status percentage =
     (if percentage \<ge> 100 then ''exceeded''
      else if percentage \<ge> 80 then ''warning''
      else ''normal'')"

definition overview_row_of :: "budget \<Rightarrow> overview_row" where
  "overview_row_of row =
     (let limit = b_limit_amount row;
          spent = b_spent_amount row;
          percentage = sql_percentage row;
          remaining = limit - spent
      in \<lparr>o_category = b_category row,
          o_limit = py_round_nd limit 2,
          o_spent = py_round_nd spent 2,
          o_remaining = py_round_nd remaining 2,
          o_percentage = py_round_nd percentage 1,
          o_status = budget_status percentage\<rparr>)"

text \<open>The loop adds each row's limit and spent amount to the running totals.\<close>

definition get_budget_overview :: "db \<Rightarrow> overview_row list \<times> overview_summary" where
  "get_budget_overview s =
     (let rows = overview_query s;
          results = map overview_row_of rows;
          total_limit = sum_list (map b_limit_amount rows);
          total_spent = sum_list (map b_spent_amount rows)
      in (results,
          \<lparr>total_limit = py_round_nd total_limit 2,
           total_spent = py_round_nd total_spent 2,
           total_remaining = py_round_nd (total_limit - total_spent) 2,
           overall_percentage =
             py_round_nd (if total_limit > 0 then total_spent / total_limit * 100 else 0) 1\<rparr>))"

subsection \<open>\<open>get_all_expenses\<close>\<close>

record pagination =
  p_total :: int
  p_page :: int
  p_limit :: int
  p_pages :: int

text \<open>
  The WHERE clause: a filter applies when its argument is truthy (given and not empty).
\<close>

definition matches :: "string option \<Rightarrow> nat option \<Rightarrow> nat option \<Rightarrow> expense \<Rightarrow> bool" where
  "matches category date_from date_to e =
     ((case category of None \<Rightarrow> True | Some c \<Rightarrow> c = [] \<or> e_category e = c) \<and>
      (case date_from of None \<Rightarrow> True | Some d \<Rightarrow> e_date e \<ge> d) \<and>
      (case date_to of None \<Rightarrow> True | Some d \<Rightarrow> e_date e \<le> d))"

text \<open>
  \<open>LIMIT ? OFFSET ?\<close> as SQLite reads them: a negative limit is no limit, a negative
  offset is 0.
\<close>

definition sql_limit_offset :: "int \<Rightarrow> int \<Rightarrow> 'a list \<Rightarrow> 'a list" where
  "sql_limit_offset limit offset rows =
     (let rest = drop (nat offset) rows
      in if limit < 0 then rest else take (nat limit) rest)"

text \<open>
  \<open>ORDER BY date DESC\<close>; rows of equal date stay in table order. Python's \<open>//\<close> is the
  floor division that \<open>div\<close> is on \<open>int\<close>, and raises ZeroDivisionError on a zero divisor.
\<close>

definition get_all_expenses ::
  "db \<Rightarrow> int \<Rightarrow> int \<Rightarrow> string option \<Rightarrow> nat option \<Rightarrow> nat option \<Rightarrow> error + (expense list \<times> pagination)" where
  "get_all_expenses s limit offset category date_from date_to =
     (let rows = sql_limit_offset limit offset
                   (sort_key (\<lambda>e. - int (e_date e))
                      (filter (matches category date_from date_to) (expenses s)));
          total_count = int (length (filter (matches category date_from date_to) (expenses s)))
      in if limit = 0 then Inl ZeroDivisionError
         else Inr (rows,
                   \<lparr>p_total = total_count,
                    p_page = offset div limit + 1,
                    p_limit = limit,
                    p_pages = (total_count + limit - 1) div limit\<rparr>))"

subsection \<open>Histories of core operations\<close>

datatype operation =
    OpInit
  | OpRecord "stmt option" nat rat string "string option" date_arg
  | OpDelete "stmt option" nat
  | OpSetBudget "stmt option" string rat

fun apply_operation :: "operation \<Rightarrow> db \<Rightarrow> db" where
  "apply_operation OpInit s = init_db s"
| "apply_operation (OpRecord fault now amount description category date) s =
     fst (add_expense fault now s amount description category date)"
| "apply_operation (OpDelete fault expense_id) s = fst (delete_expense fault s expense_id)"
| "apply_operation (OpSetBudget fault category limit_amount) s =
     fst (set_budget fault s category limit_amount)"

text \<open>The store after a history of operations on a newly initialised database file.\<close>

definition run :: "operation list \<Rightarrow> db" where
  "run ops = fold apply_operation ops (init_db empty_db)"

section \<open>Auxiliary notions for the statements\<close>

text \<open>
  The list of notifications (none or one) that \<open>add_expense\<close> inserts for the budget
  row it read back, as one expression.
\<close>

definition threshold_notification :: "string \<Rightarrow> budget \<Rightarrow> notification list" where
  "threshold_notification category budget =
     (if b_spent_amount budget > b_limit_amount budget
      then [\<lparr>n_message = Exceeded category (b_limit_amount budget)
                (py_round (b_spent_amount budget / b_limit_amount budget * 100)),
              n_status = Unread,
              n_type = (if py_round (b_spent_amount budget / b_limit_amount budget * 100) > 120
                        then Alert else Warning)\<rparr>]
      else [])"




section \<open>Properties of the classifier\<close>

lemma best_loop_unchanged:
  "\<forall>(c, ks) \<in> set cs. count_matches ks d \<le> m \<Longrightarrow> best_loop cs d (m, b) = (m, b)"
  by (induction cs) (auto simp: Let_def)

lemma best_loop_first_max:
  "i < length cs \<Longrightarrow> m < count_matches (snd (cs ! i)) d \<Longrightarrow>
   \<forall>j<i. count_matches (snd (cs ! j)) d < count_matches (snd (cs ! i)) d \<Longrightarrow>
   \<forall>j<length cs. count_matches (snd (cs ! j)) d \<le> count_matches (snd (cs ! i)) d \<Longrightarrow>
   best_loop cs d (m, b) = (count_matches (snd (cs ! i)) d, fst (cs ! i))"
proof (induction cs arbitrary: i m b)
  case Nil
  then show ?case by simp
next
  case (Cons p cs)
  obtain c ks where p: "p = (c, ks)" by (cases p)
  show ?case
  proof (cases i)
    case 0
    have "\<forall>(c', ks') \<in> set cs. count_matches ks' d \<le> count_matches ks d"
    proof (clarify)
      fix c' ks' assume "(c', ks') \<in> set cs"
      then obtain j where j: "j < length cs" "cs ! j = (c', ks')"
        by (auto simp: in_set_conv_nth)
      from Cons.prems(4) j(1) have "count_matches (snd ((p # cs) ! Suc j)) d
          \<le> count_matches (snd ((p # cs) ! i)) d"
        by (metis Suc_less_eq length_Cons)
      with j(2) 0 p show "count_matches ks' d \<le> count_matches ks d" by simp
    qed
    from best_loop_unchanged [OF this] Cons.prems(2) 0 p show ?thesis
      by (simp add: Let_def)
  next
    case (Suc i')
    let ?t = "count_matches (snd (cs ! i')) d"
    have i': "i' < length cs" using Cons.prems(1) Suc by simp
    have hd_lt: "count_matches ks d < ?t"
      using Cons.prems(3) [rule_format, of 0] Suc p by simp
    have before: "\<forall>j<i'. count_matches (snd (cs ! j)) d < ?t"
    proof (intro allI impI)
      fix j assume "j < i'"
      then have "Suc j < i" using Suc by simp
      from Cons.prems(3) [rule_format, OF this] Suc show "count_matches (snd (cs ! j)) d < ?t"
        by simp
    qed
    have all: "\<forall>j<length cs. count_matches (snd (cs ! j)) d \<le> ?t"
    proof (intro allI impI)
      fix j assume "j < length cs"
      then have "Suc j < length (p # cs)" by simp
      from Cons.prems(4) [rule_format, OF this] Suc show "count_matches (snd (cs ! j)) d \<le> ?t"
        by simp
    qed
    have m: "m < ?t" using Cons.prems(2) Suc by simp
    show ?thesis
    proof (cases "m < count_matches ks d")
      case True
      from Cons.IH [OF i' hd_lt before all, of c] True Suc p show ?thesis
        by (simp add: Let_def)
    next
      case False
      from Cons.IH [OF i' m before all, of b] False Suc p show ?thesis
        by (simp add: Let_def)
    qed
  qed
qed

lemma all_less_6:
  "(\<forall>j<(6::nat). P j) = (P 0 \<and> P 1 \<and> P 2 \<and> P 3 \<and> P 4 \<and> P 5)"
proof
  assume "\<forall>j<6. P j"
  then show "P 0 \<and> P 1 \<and> P 2 \<and> P 3 \<and> P 4 \<and> P 5" by simp
next
  assume a: "P 0 \<and> P 1 \<and> P 2 \<and> P 3 \<and> P 4 \<and> P 5"
  show "\<forall>j<6. P j"
  proof (intro allI impI)
    fix j :: nat
    assume "j < 6"
    then have "j = 0 \<or> j = 1 \<or> j = 2 \<or> j = 3 \<or> j = 4 \<or> j = 5" by arith
    with a show "P j" by auto
  qed
qed

lemma length_categories: "length categories = 6"
  by (simp add: categories_def)

text \<open>
  Claim C2, as the code has it: the loop replaces its candidate only on a strictly larger
  count, so the result is the FIRST category of the table (food, housing, transport,
  entertainment, shopping, health) that reaches the highest count, provided that count is
  positive; a tie between categories is won by the earlier one and does not fall back to
  "other". When every category scores zero the result is "other". In particular
  \<open>classify("") = "other"\<close> and \<open>classify("bought lunch at cafe") = "food"\<close>.
\<close>

theorem categorize_expense_first_highest:
  "(description \<noteq> [] \<and> i < length categories \<and> 0 < score i description \<and>
      (\<forall>j<i. score j description < score i description) \<and>
      (\<forall>j<length categories. score j description \<le> score i description)
      \<longrightarrow> categorize_expense description = fst (categories ! i)) \<and>
   ((\<forall>j<length categories. score j description = 0)
      \<longrightarrow> categorize_expense description = ''other'') \<and>
   categorize_expense [] = ''other'' \<and>
   categorize_expense ''bought lunch at cafe'' = ''food''"
proof (intro conjI impI)
  assume a: "description \<noteq> [] \<and> i < length categories \<and> 0 < score i description \<and>
      (\<forall>j<i. score j description < score i description) \<and>
      (\<forall>j<length categories. score j description \<le> score i description)"
  from a have "best_loop categories (lower description) (0, ''other'') =
      (count_matches (snd (categories ! i)) (lower description), fst (categories ! i))"
    by (intro best_loop_first_max) (simp_all add: score_def)
  with a show "categorize_expense description = fst (categories ! i)"
    by (simp add: categorize_expense_def)
next
  assume z: "\<forall>j<length categories. score j description = 0"
  have "count_matches ks (lower description) \<le> 0" if "(c, ks) \<in> set categories" for c ks
  proof -
    from that obtain j where "j < length categories" "categories ! j = (c, ks)"
      by (auto simp: in_set_conv_nth)
    with z show ?thesis
      by (auto simp: score_def)
  qed
  then have "\<forall>(c, ks) \<in> set categories. count_matches ks (lower description) \<le> 0"
    by blast
  from best_loop_unchanged [OF this]
  show "categorize_expense description = ''other''"
    by (simp add: categorize_expense_def)
next
  show "categorize_expense [] = ''other''"
    by (simp add: categorize_expense_def)
next
  show "categorize_expense ''bought lunch at cafe'' = ''food''"
    by code_simp
qed

text \<open>
  The theorem at "maintenance" (a keyword of both housing and transport: the earlier
  category wins) and at "xyz" (no keyword at all).
\<close>

theorem categorize_expense_first_highest_witness:
  "score 1 ''maintenance'' = 1 \<and> score 2 ''maintenance'' = 1 \<and>
   categorize_expense ''maintenance'' = ''housing'' \<and>
   score 0 ''xyz'' = 0 \<and> categorize_expense ''xyz'' = ''other''"
proof -
  have m: "score 0 ''maintenance'' = 0" "score 1 ''maintenance'' = 1"
    "score 2 ''maintenance'' = 1" "score 3 ''maintenance'' = 0"
    "score 4 ''maintenance'' = 0" "score 5 ''maintenance'' = 0"
    by code_simp+
  have x: "score 0 ''xyz'' = 0" "score 1 ''xyz'' = 0" "score 2 ''xyz'' = 0"
    "score 3 ''xyz'' = 0" "score 4 ''xyz'' = 0" "score 5 ''xyz'' = 0"
    by code_simp+
  have h: "fst (categories ! 1) = ''housing''"
    by (simp add: categories_def)
  from categorize_expense_first_highest [of "''maintenance''" 1] m h
  have "categorize_expense ''maintenance'' = ''housing''"
    by (simp add: length_categories all_less_6)
  moreover from categorize_expense_first_highest [of "''xyz''" 0] x
  have "categorize_expense ''xyz'' = ''other''"
    by (simp add: length_categories all_less_6)
  ultimately show ?thesis using m x by simp
qed

text \<open>
  Claim C2 as stated fails on a tie: for "maintenance" housing and transport both score 1,
  every other category scores 0, and the result is "housing", not "other".
\<close>

theorem categorize_expense_tie_counterexample:
  "score 0 ''maintenance'' = 0 \<and> score 1 ''maintenance'' = 1 \<and>
   score 2 ''maintenance'' = 1 \<and> score 3 ''maintenance'' = 0 \<and>
   score 4 ''maintenance'' = 0 \<and> score 5 ''maintenance'' = 0 \<and>
   categorize_expense ''maintenance'' = ''housing'' \<and>
   categorize_expense ''maintenance'' \<noteq> ''other''"
  by code_simp

section \<open>Transactions: a failed operation leaves the store as it was\<close>

lemma committed_execute: "committed (execute stmt conn) = committed conn"
  by (simp add: execute_def)

lemma commit_and_return_error:
  "commit_and_return fault r conn = (conn', Inl e) \<Longrightarrow> conn' = conn \<and> e = SqliteError"
  by (auto simp: commit_and_return_def split: if_splits)

lemma add_expense_body_error:
  "add_expense_body fault amount description category date conn = (conn', Inl e) \<Longrightarrow>
   committed conn' = committed conn"
  by (auto simp: add_expense_body_def Let_def committed_execute
      dest!: commit_and_return_error split: if_splits option.splits)

lemma delete_expense_body_error:
  "delete_expense_body fault expense_id conn = (conn', Inl e) \<Longrightarrow>
   committed conn' = committed conn"
  by (auto simp: delete_expense_body_def Let_def committed_execute rollback_def
      dest!: commit_and_return_error split: if_splits option.splits)

lemma db_connection_error:
  assumes "\<And>conn' e. body (connect s) = (conn', Inl e) \<Longrightarrow> committed conn' = s"
    and "snd (db_connection s body) = Inl e"
  shows "fst (db_connection s body) = s"
proof -
  obtain conn r where b: "body (connect s) = (conn, r)" by (cases "body (connect s)")
  show ?thesis
  proof (cases r)
    case (Inl e')
    with assms(1) b have "committed conn = s" by simp
    with b Inl show ?thesis
      by (cases e') (simp_all add: db_connection_def close_def rollback_def)
  next
    case (Inr x)
    with b assms(2) show ?thesis by (simp add: db_connection_def)
  qed
qed

text \<open>
  Claim C7: whenever \<open>add_expense\<close> or \<open>delete_expense\<close> raises (a validation
  failure, an unknown expense id, a division by zero, or the store failing at any one
  statement of the transaction, the commit included), the database the call leaves behind
  is the database it found: expenses, budgets, notifications and the id sequence.
\<close>

theorem failed_operation_leaves_store:
  "(snd (add_expense fault now s amount description category date) = Inl e
      \<longrightarrow> fst (add_expense fault now s amount description category date) = s) \<and>
   (snd (delete_expense fault s expense_id) = Inl e
      \<longrightarrow> fst (delete_expense fault s expense_id) = s)"
proof (intro conjI impI)
  assume a: "snd (add_expense fault now s amount description category date) = Inl e"
  show "fst (add_expense fault now s amount description category date) = s"
  proof (cases "amount = 0 \<or> amount \<le> 0 \<or> description = []")
    case True
    then show ?thesis by (auto simp: add_expense_def)
  next
    case False
    with a show ?thesis
      by (auto simp: add_expense_def connect_def intro!: db_connection_error
          dest!: add_expense_body_error)
  qed
next
  assume "snd (delete_expense fault s expense_id) = Inl e"
  then show "fst (delete_expense fault s expense_id) = s"
    by (auto simp: delete_expense_def connect_def intro!: db_connection_error
        dest!: delete_expense_body_error)
qed

text \<open>
  The theorem where the store fails after the expense was inserted and the budget updated
  (at the notification insert, and at the budget update of a deletion).
\<close>

theorem failed_operation_leaves_store_witness:
  "snd (add_expense (Some InsertNotification) 7 (init_db empty_db) 600 ''lunch'' None NoDate)
     = Inl SqliteError \<and>
   fst (add_expense (Some InsertNotification) 7 (init_db empty_db) 600 ''lunch'' None NoDate)
     = init_db empty_db \<and>
   snd (delete_expense (Some UpdateBudget) (run [OpRecord None 7 600 ''lunch'' None NoDate]) 1)
     = Inl SqliteError \<and>
   fst (delete_expense (Some UpdateBudget) (run [OpRecord None 7 600 ''lunch'' None NoDate]) 1)
     = run [OpRecord None 7 600 ''lunch'' None NoDate]"
proof -
  have a: "snd (add_expense (Some InsertNotification) 7 (init_db empty_db) 600 ''lunch'' None
      NoDate) = Inl SqliteError"
    by code_simp
  have d: "snd (delete_expense (Some UpdateBudget)
      (run [OpRecord None 7 600 ''lunch'' None NoDate]) 1) = Inl SqliteError"
    by code_simp
  from a
    failed_operation_leaves_store [of "Some InsertNotification" 7 "init_db empty_db" 600
      "''lunch''" None NoDate SqliteError]
  have a': "fst (add_expense (Some InsertNotification) 7 (init_db empty_db) 600 ''lunch'' None
      NoDate) = init_db empty_db"
    by simp
  from d
    failed_operation_leaves_store [where fault = "Some UpdateBudget"
      and s = "run [OpRecord None 7 600 ''lunch'' None NoDate]" and expense_id = 1
      and e = SqliteError]
  have "fst (delete_expense (Some UpdateBudget)
      (run [OpRecord None 7 600 ''lunch'' None NoDate]) 1)
      = run [OpRecord None 7 600 ''lunch'' None NoDate]"
    by simp
  with a a' d show ?thesis by simp
qed

section \<open>Listing expenses\<close>

text \<open>
  Claim C10: with \<open>limit = 0\<close> the call raises ZeroDivisionError, whatever the store and
  the other arguments: the pagination divides by the limit.
\<close>

theorem get_all_expenses_limit_zero:
  "get_all_expenses s 0 offset category date_from date_to = Inl ZeroDivisionError"
  by (simp add: get_all_expenses_def)








section \<open>Recording an expense\<close>

lemma find_upsert_spent:
  "find (\<lambda>b. b_category b = c) (upsert_spent c a bs) =
     Some (case find (\<lambda>b. b_category b = c) bs of
             None \<Rightarrow> \<lparr>b_category = c, b_limit_amount = 300, b_spent_amount = a,
                       b_period = ''monthly''\<rparr>
           | Some b \<Rightarrow> b\<lparr>b_spent_amount := b_spent_amount b + a\<rparr>)"
  by (induction bs) auto


lemma find_upsert_limit:
  "find (\<lambda>b. b_category b = c) (upsert_limit c l bs) =
     Some (case find (\<lambda>b. b_category b = c) bs of
             None \<Rightarrow> \<lparr>b_category = c, b_limit_amount = l, b_spent_amount = 0,
                       b_period = ''monthly''\<rparr>
           | Some b \<Rightarrow> b\<lparr>b_limit_amount := l\<rparr>)"
  by (induction bs) auto

lemma add_expense_Inr:
  assumes "add_expense fault now s amount description category date = (s', Inr expense_id)"
  shows "0 < amount \<and> description \<noteq> [] \<and> expense_id = next_expense_id s \<and>
    expenses s' = expenses s @
      [\<lparr>e_id = next_expense_id s, e_amount = amount, e_description = description,
        e_category = effective_category description category,
        e_date = normalize_date now date\<rparr>] \<and>
    budgets s' = upsert_spent (effective_category description category) amount (budgets s) \<and>
    expenses_seq s' = next_expense_id s \<and>
    (\<exists>b. select_budget (effective_category description category) s' = Some b \<and>
      notifications s' = notifications s @
        threshold_notification (effective_category description category) b)"
  using assms
  by (auto simp: add_expense_def db_connection_def add_expense_body_def Let_def
      commit_and_return_def execute_def commit_def close_def connect_def insert_expense_def
      select_budget_def insert_notification_def threshold_notification_def find_upsert_spent
      split: if_splits option.splits prod.splits sum.splits error.splits)

lemma filter_absent:
  "c \<notin> b_category ` set bs \<Longrightarrow> filter (\<lambda>b. b_category b = c) bs = []"
  by (induction bs) auto

lemma filter_upsert_spent:
  "distinct (map b_category bs) \<Longrightarrow>
   filter (\<lambda>b. b_category b = c) (upsert_spent c a bs) =
     [case find (\<lambda>b. b_category b = c) bs of
        None \<Rightarrow> \<lparr>b_category = c, b_limit_amount = 300, b_spent_amount = a,
                  b_period = ''monthly''\<rparr>
      | Some b \<Rightarrow> b\<lparr>b_spent_amount := b_spent_amount b + a\<rparr>]"
  by (induction bs) (auto simp: filter_absent)

lemma categories_upsert_limit:
  "b_category ` set (upsert_limit c l bs) = insert c (b_category ` set bs)"
  by (induction bs) auto


lemma distinct_upsert_limit:
  "distinct (map b_category bs) \<Longrightarrow> distinct (map b_category (upsert_limit c l bs))"
  by (induction bs) (auto simp: categories_upsert_limit)


lemma set_budget_ok:
  assumes "strip category \<noteq> []" "0 < limit_amount"
  shows "set_budget None s category limit_amount =
    (s\<lparr>budgets := upsert_limit category limit_amount (budgets s)\<rparr>, Inr True)"
  using assms
  by (auto simp: set_budget_def db_connection_def commit_and_return_def execute_def commit_def
      close_def connect_def strip_def)

lemma add_expense_ok:
  assumes "0 < amount" "description \<noteq> []"
    and "find (\<lambda>b. b_category b = effective_category description category)
           (upsert_spent (effective_category description category) amount (budgets s)) = Some b"
    and "b_limit_amount b \<noteq> 0"
  shows "snd (add_expense None now s amount description category date) = Inr (next_expense_id s)"
  using assms
  by (auto simp: add_expense_def db_connection_def add_expense_body_def Let_def
      commit_and_return_def execute_def commit_def close_def connect_def insert_expense_def
      select_budget_def insert_notification_def
      split: if_splits option.splits prod.splits sum.splits error.splits)

lemma find_Some_category: "find (\<lambda>b. b_category b = c) bs = Some b \<Longrightarrow> b_category b = c \<and> b \<in> set bs"
  by (induction bs) (auto split: if_splits)

lemma overview_filter:
  "filter (\<lambda>r. o_category r = c) (fst (get_budget_overview s)) =
     map overview_row_of (sort_key (\<lambda>b. - sql_percentage b) (filter (\<lambda>b. b_category b = c) (budgets s)))"
proof -
  have "(\<lambda>r. o_category r = c) \<circ> overview_row_of = (\<lambda>b. b_category b = c)"
    by (auto simp: overview_row_of_def Let_def fun_eq_iff)
  then show ?thesis
    by (simp add: get_budget_overview_def Let_def overview_query_def filter_map filter_sort)
qed






section \<open>Setting a budget\<close>

lemma strip_Nil: "strip [] = []"
  by (simp add: strip_def)

text \<open>
  Claim C4, on the code: \<open>not limit_amount\<close> is true of 0, so \<open>set_budget\<close> raises
  ValueError for a limit of 0 on every store (and changes nothing), although 0 is a
  non-negative number. When the store does not fail, the call raises ValueError exactly
  when the category is blank or the limit is 0 or negative; otherwise it succeeds and the
  budget row of the category is a new row with nothing spent, or the old row with only
  its limit replaced.
\<close>

theorem set_budget_zero_limit_rejected:
  "set_budget fault s ''food'' 0 = (s, Inl ValueError) \<and>
   set_budget None s category limit_amount =
     (if strip category = [] \<or> limit_amount \<le> 0 then (s, Inl ValueError)
      else (s\<lparr>budgets := upsert_limit category limit_amount (budgets s)\<rparr>, Inr True)) \<and>
   select_budget category (s\<lparr>budgets := upsert_limit category limit_amount (budgets s)\<rparr>) =
     Some (case select_budget category s of
             None \<Rightarrow> \<lparr>b_category = category, b_limit_amount = limit_amount,
                       b_spent_amount = 0, b_period = ''monthly''\<rparr>
           | Some b \<Rightarrow> b\<lparr>b_limit_amount := limit_amount\<rparr>)"
proof (intro conjI)
  show "set_budget fault s ''food'' 0 = (s, Inl ValueError)"
    by (simp add: set_budget_def strip_def is_space_def)
  show "set_budget None s category limit_amount =
     (if strip category = [] \<or> limit_amount \<le> 0 then (s, Inl ValueError)
      else (s\<lparr>budgets := upsert_limit category limit_amount (budgets s)\<rparr>, Inr True))"
    by (auto simp: set_budget_def db_connection_def commit_and_return_def execute_def
        commit_def close_def connect_def strip_Nil)
  show "select_budget category (s\<lparr>budgets := upsert_limit category limit_amount (budgets s)\<rparr>) =
     Some (case select_budget category s of
             None \<Rightarrow> \<lparr>b_category = category, b_limit_amount = limit_amount,
                       b_spent_amount = 0, b_period = ''monthly''\<rparr>
           | Some b \<Rightarrow> b\<lparr>b_limit_amount := limit_amount\<rparr>)"
    by (simp add: select_budget_def find_upsert_limit)
qed

section \<open>The travel scenario\<close>

lemma overview_row_250_300:
  assumes "b_category b = c" "b_limit_amount b = 250" "b_spent_amount b = 300"
  shows "overview_row_of b
   = \<lparr>o_category = c, o_limit = 250, o_spent = 300, o_remaining = - 50,
       o_percentage = 120, o_status = ''exceeded''\<rparr>"
proof -
  have "py_round 25000 = 25000" "py_round 30000 = 30000" "py_round (- 5000) = - 5000"
    "py_round 1200 = 1200"
    by (simp_all add: py_round_def)
  with assms show ?thesis
    by (simp add: overview_row_of_def sql_percentage_def py_round_nd_def budget_status_def)
qed

lemma strip_travel: "strip ''travel'' = ''travel''"
  by (simp add: strip_def is_space_def)

lemma absent_spent_zero:
  "c \<notin> b_category ` set bs \<Longrightarrow> \<forall>b \<in> set bs. b_category b = c \<longrightarrow> b_spent_amount b = 0"
  by auto

text \<open>
  Claim C1, as the code has it: on a store whose budget categories are distinct (the
  UNIQUE constraint) and where "travel" has no row or a row with nothing spent,
  \<open>set_budget("travel", 250)\<close> and then \<open>add_expense(300, "flight to NYC", "travel")\<close>
  both succeed; the overview then has exactly one row for "travel", with limit 250, spent
  300, remaining -50, percentage 120.0 and status "exceeded"; and the \<open>add_expense\<close>
  call has created exactly one notification, unread and of type "warning": 120 percent is
  not strictly above 120.
\<close>

theorem travel_scenario:
  assumes "distinct (map b_category (budgets s))"
    and "\<forall>b \<in> set (budgets s). b_category b = ''travel'' \<longrightarrow> b_spent_amount b = 0"
  shows "snd (set_budget None s ''travel'' 250) = Inr True \<and>
    snd (add_expense None now (fst (set_budget None s ''travel'' 250)) 300 ''flight to NYC''
           (Some ''travel'') date) = Inr (next_expense_id s) \<and>
    filter (\<lambda>r. o_category r = ''travel'')
      (fst (get_budget_overview
         (fst (add_expense None now (fst (set_budget None s ''travel'' 250)) 300
                 ''flight to NYC'' (Some ''travel'') date))))
      = [\<lparr>o_category = ''travel'', o_limit = 250, o_spent = 300, o_remaining = - 50,
           o_percentage = 120, o_status = ''exceeded''\<rparr>] \<and>
    notifications
      (fst (add_expense None now (fst (set_budget None s ''travel'' 250)) 300
              ''flight to NYC'' (Some ''travel'') date))
      = notifications s @
        [\<lparr>n_message = Exceeded ''travel'' 250 120, n_status = Unread, n_type = Warning\<rparr>]"
proof -
  let ?c = "''travel''"
  let ?P = "\<lambda>b. b_category b = ?c"
  define s1 where "s1 = s\<lparr>budgets := upsert_limit ?c 250 (budgets s)\<rparr>"
  have set: "set_budget None s ?c 250 = (s1, Inr True)"
    unfolding s1_def by (rule set_budget_ok) (simp_all add: strip_travel)
  define b1 where "b1 = (case find ?P (budgets s) of
      None \<Rightarrow> \<lparr>b_category = ?c, b_limit_amount = 250, b_spent_amount = 0,
                b_period = ''monthly''\<rparr>
    | Some b \<Rightarrow> b\<lparr>b_limit_amount := 250\<rparr>)"
  have b1: "b_category b1 = ?c" "b_limit_amount b1 = 250" "b_spent_amount b1 = 0"
    using assms(2) by (auto simp: b1_def dest: find_Some_category split: option.splits)
  have f1: "find ?P (budgets s1) = Some b1"
    by (simp add: s1_def b1_def find_upsert_limit)
  have d1: "distinct (map b_category (budgets s1))"
    using assms(1) by (simp add: s1_def distinct_upsert_limit)
  have cat: "effective_category ''flight to NYC'' (Some ?c) = ?c"
    by (simp add: effective_category_def strip_travel)
  define b2 where "b2 = b1\<lparr>b_spent_amount := b_spent_amount b1 + 300\<rparr>"
  have b2: "b_category b2 = ?c" "b_limit_amount b2 = 250" "b_spent_amount b2 = 300"
    using b1 by (simp_all add: b2_def)
  have f2: "find ?P (upsert_spent ?c 300 (budgets s1)) = Some b2"
    by (simp add: find_upsert_spent f1 b2_def)
  let ?r = "add_expense None now s1 300 ''flight to NYC'' (Some ?c) date"
  have "snd ?r = Inr (next_expense_id s1)"
    by (rule add_expense_ok [where b = b2]) (simp_all add: cat f2 b2)
  then have res: "snd ?r = Inr (next_expense_id s)"
    by (simp add: s1_def next_expense_id_def)
  then have "?r = (fst ?r, Inr (next_expense_id s))"
    by (metis prod.collapse)
  from add_expense_Inr [OF this] obtain b where
    bud: "budgets (fst ?r) = upsert_spent ?c 300 (budgets s1)" and
    sel: "select_budget ?c (fst ?r) = Some b" and
    nots: "notifications (fst ?r) = notifications s1 @ threshold_notification ?c b"
    unfolding cat by blast
  from sel bud f2 have "b = b2" by (simp add: select_budget_def)
  moreover have "py_round 120 = 120" by (simp add: py_round_def)
  ultimately have n: "notifications (fst ?r) = notifications s @
      [\<lparr>n_message = Exceeded ?c 250 120, n_status = Unread, n_type = Warning\<rparr>]"
    using nots b2 by (simp add: threshold_notification_def s1_def)
  have "filter ?P (budgets (fst ?r)) = [b2]"
    by (simp add: bud filter_upsert_spent [OF d1] f1 b2_def)
  then have "filter (\<lambda>r. o_category r = ?c) (fst (get_budget_overview (fst ?r)))
      = [overview_row_of b2]"
    by (simp add: overview_filter)
  with b2 have ov: "filter (\<lambda>r. o_category r = ?c) (fst (get_budget_overview (fst ?r)))
      = [\<lparr>o_category = ?c, o_limit = 250, o_spent = 300, o_remaining = - 50,
           o_percentage = 120, o_status = ''exceeded''\<rparr>]"
    by (simp add: overview_row_250_300)
  from set res n ov show ?thesis by simp
qed

text \<open>The theorem on a newly initialised store.\<close>

theorem travel_scenario_witness:
  "distinct (map b_category (budgets (init_db empty_db))) \<and>
   ''travel'' \<notin> b_category ` set (budgets (init_db empty_db)) \<and>
   snd (add_expense None 7 (fst (set_budget None (init_db empty_db) ''travel'' 250)) 300
          ''flight to NYC'' (Some ''travel'') NoDate) = Inr 1 \<and>
   notifications
      (fst (add_expense None 7 (fst (set_budget None (init_db empty_db) ''travel'' 250)) 300
              ''flight to NYC'' (Some ''travel'') NoDate))
      = [\<lparr>n_message = Exceeded ''travel'' 250 120, n_status = Unread, n_type = Warning\<rparr>]"
proof -
  have d: "distinct (map b_category (budgets (init_db empty_db)))" by code_simp
  have t: "''travel'' \<notin> b_category ` set (budgets (init_db empty_db))" by code_simp
  then have z: "\<forall>b \<in> set (budgets (init_db empty_db)).
      b_category b = ''travel'' \<longrightarrow> b_spent_amount b = 0"
    by (rule absent_spent_zero)
  have i: "next_expense_id (init_db empty_db) = 1" by code_simp
  have n: "notifications (init_db empty_db) = []" by code_simp
  from travel_scenario [OF d z, of 7 NoDate] d t i n show ?thesis by simp
qed

text \<open>
  Claim C1 as stated fails: on a newly initialised store the notification the scenario
  creates is a "warning", and no "alert" exists afterwards.
\<close>

theorem travel_scenario_counterexample:
  "map n_type (notifications
     (run [OpSetBudget None ''travel'' 250,
           OpRecord None 7 300 ''flight to NYC'' (Some ''travel'') NoDate])) = [Warning] \<and>
   filter (\<lambda>n. n_type n = Alert) (notifications
     (run [OpSetBudget None ''travel'' 250,
           OpRecord None 7 300 ''flight to NYC'' (Some ''travel'') NoDate])) = []"
  by code_simp

section \<open>The budget overview\<close>










section \<open>Recording and then deleting an expense\<close>











section \<open>The ledger invariant\<close>



























end
